theory Spec2Isabelle
  imports Complex_Main "HOL-Library.Char_ord" "HOL-Library.List_Lexorder"
begin

section \<open>Python values used by hostmon.py\<close>

text \<open>
  Text is modelled with Isabelle's 8-bit characters, read as the code points
  U+0000 .. U+00FF.  Python floats are modelled by exact rationals (type \<open>rat\<close>);
  a float that is the result of \<open>round(x, n)\<close> or of parsing a literal is kept
  as a decimal (mantissa and power of ten), which is what \<open>repr\<close> prints.
  The rounding error of IEEE-754 arithmetic is outside the model.
\<close>

datatype exn =
    OSError | ValueError | IndexError | TypeError | OverflowError
  | SerialException

definition bind_exn :: "exn + 'a \<Rightarrow> ('a \<Rightarrow> exn + 'b) \<Rightarrow> exn + 'b" where
  "bind_exn m f = (case m of Inl e \<Rightarrow> Inl e | Inr x \<Rightarrow> f x)"

subsection \<open>str methods\<close>

definition code :: "char \<Rightarrow> nat" where
  "code c = of_char c"

definition py_isspace :: "char \<Rightarrow> bool" where
  \<comment> \<open>\<open>str.isspace\<close> on U+0000 .. U+00FF\<close>
  "py_isspace c = (let n = code c in
     (9 \<le> n \<and> n \<le> 13) \<or> (28 \<le> n \<and> n \<le> 32) \<or> n = 133 \<or> n = 160)"

definition strip :: "string \<Rightarrow> string" where
  "strip s = rev (dropWhile py_isspace (rev (dropWhile py_isspace s)))"

fun split_acc :: "string \<Rightarrow> string \<Rightarrow> string list" where
  "split_acc cur [] = (if cur = [] then [] else [rev cur])"
| "split_acc cur (c # cs) =
     (if py_isspace c then (if cur = [] then split_acc [] cs else rev cur # split_acc [] cs)
      else split_acc (c # cur) cs)"

definition py_split :: "string \<Rightarrow> string list" where
  \<comment> \<open>\<open>s.split()\<close>: the maximal runs of non-whitespace\<close>
  "py_split s = split_acc [] s"

definition split_colon :: "string \<Rightarrow> string \<times> string" where
  \<comment> \<open>\<open>s.split(":", 1)\<close> of a string that holds a colon\<close>
  "split_colon s = (takeWhile (\<lambda>c. c \<noteq> CHR '':'') s, drop 1 (dropWhile (\<lambda>c. c \<noteq> CHR '':'') s))"

definition is_ascii_digit :: "char \<Rightarrow> bool" where
  "is_ascii_digit c = (48 \<le> code c \<and> code c \<le> 57)"

definition digit_val :: "char \<Rightarrow> nat" where
  "digit_val c = code c - 48"

fun digits_val :: "nat \<Rightarrow> string \<Rightarrow> nat option" where
  "digits_val acc [] = Some acc"
| "digits_val acc (c # cs) =
     (if is_ascii_digit c then digits_val (acc * 10 + digit_val c) cs
      else if c = CHR ''_'' \<and> cs \<noteq> [] \<and> is_ascii_digit (hd cs) then digits_val acc cs
      else None)"

definition py_int :: "string \<Rightarrow> exn + int" where
  \<comment> \<open>\<open>int(s)\<close>: surrounding whitespace, an optional sign, decimal digits, single
      underscores between digits.  The interpreter's limit on the number of digits
      (4300 by default from Python 3.11) is not modelled.\<close>
  "py_int s =
     (let t = strip s;
          neg = (t \<noteq> [] \<and> hd t = CHR ''-'');
          body = (if t \<noteq> [] \<and> (hd t = CHR ''-'' \<or> hd t = CHR ''+'') then tl t else t)
      in if body = [] \<or> \<not> is_ascii_digit (hd body) then Inl ValueError
         else (case digits_val 0 body of
                 None \<Rightarrow> Inl ValueError
               | Some n \<Rightarrow> Inr (if neg then - int n else int n)))"

fun map_exn :: "('a \<Rightarrow> exn + 'b) \<Rightarrow> 'a list \<Rightarrow> exn + 'b list" where
  "map_exn f [] = Inr []"
| "map_exn f (x # xs) =
     (case f x of Inl e \<Rightarrow> Inl e
      | Inr y \<Rightarrow> (case map_exn f xs of Inl e \<Rightarrow> Inl e | Inr ys \<Rightarrow> Inr (y # ys)))"

definition py_isdigit :: "string \<Rightarrow> bool" where
  \<comment> \<open>\<open>str.isdigit()\<close> on U+0000 .. U+00FF: the ASCII digits and the superscripts
      U+00B2, U+00B3, U+00B9\<close>
  "py_isdigit s = (s \<noteq> [] \<and> (\<forall>c \<in> set s. is_ascii_digit c \<or> code c \<in> {178, 179, 185}))"

definition lower_char :: "char \<Rightarrow> char" where
  "lower_char c = (let n = code c in
     if (65 \<le> n \<and> n \<le> 90) \<or> (192 \<le> n \<and> n \<le> 222 \<and> n \<noteq> 215) then char_of (n + 32) else c)"

definition lower :: "string \<Rightarrow> string" where
  \<comment> \<open>\<open>str.lower()\<close> on U+0000 .. U+00FF\<close>
  "lower s = map lower_char s"

definition upper_char :: "char \<Rightarrow> nat list" where
  \<comment> \<open>the upper-case mapping of one character, as code points: U+00DF becomes SS,
      U+00B5 and U+00FF leave the range\<close>
  "upper_char c = (let n = code c in
     if 97 \<le> n \<and> n \<le> 122 then [n - 32]
     else if n = 223 then [83, 83]
     else if n = 181 then [924]
     else if n = 255 then [376]
     else if 224 \<le> n \<and> n \<le> 254 \<and> n \<noteq> 247 then [n - 32]
     else [n])"

definition upper :: "string \<Rightarrow> nat list" where
  \<comment> \<open>\<open>str.upper()\<close> on U+0000 .. U+00FF, as code points\<close>
  "upper s = concat (map upper_char s)"

definition startswith :: "string \<Rightarrow> string \<Rightarrow> bool" where
  "startswith s p = (take (length p) s = p)"

fun contains :: "string \<Rightarrow> string \<Rightarrow> bool" where
  \<comment> \<open>\<open>p in s\<close>\<close>
  "contains [] p = (p = [])"
| "contains (c # cs) p = (startswith (c # cs) p \<or> contains cs p)"

fun join :: "string \<Rightarrow> string list \<Rightarrow> string" where
  "join sep [] = []"
| "join sep [x] = x"
| "join sep (x # y # xs) = x @ sep @ join sep (y # xs)"

fun nat_digits :: "nat \<Rightarrow> string" where
  "nat_digits n = (if n < 10 then [char_of (48 + n)] else nat_digits (n div 10) @ [char_of (48 + n mod 10)])"

declare nat_digits.simps [simp del]

definition py_str :: "int \<Rightarrow> string" where
  \<comment> \<open>\<open>str(n)\<close> of an int\<close>
  "py_str n = (if n < 0 then CHR ''-'' # nat_digits (nat (- n)) else nat_digits (nat n))"

subsection \<open>Lines of a text\<close>

fun lines_acc :: "(char \<Rightarrow> bool) \<Rightarrow> bool \<Rightarrow> string \<Rightarrow> string \<Rightarrow> string list" where
  "lines_acc brk cr cur [] = (if cur = [] then [] else [rev cur])"
| "lines_acc brk cr cur (c # cs) =
     (if cr \<and> c = CHR 0x0A then lines_acc brk False cur cs
      else if brk c then rev cur # lines_acc brk (c = CHR 0x0D) [] cs
      else lines_acc brk False (c # cur) cs)"

definition text_lines :: "string \<Rightarrow> string list" where
  \<comment> \<open>the lines of a file opened in text mode (\<open>\n\<close>, \<open>\r\<close> and \<open>\r\n\<close> end a line);
      the terminators are left out, every caller discards them\<close>
  "text_lines s = lines_acc (\<lambda>c. c = CHR 0x0A \<or> c = CHR 0x0D) False [] s"

definition splitlines :: "string \<Rightarrow> string list" where
  \<comment> \<open>\<open>str.splitlines()\<close> on U+0000 .. U+00FF\<close>
  "splitlines s = lines_acc (\<lambda>c. code c \<in> {10, 11, 12, 13, 28, 29, 30, 133}) False [] s"

definition index :: "'a list \<Rightarrow> nat \<Rightarrow> exn + 'a" where
  \<comment> \<open>\<open>xs[i]\<close> for a non-negative literal index\<close>
  "index xs i = (if i < length xs then Inr (xs ! i) else Inl IndexError)"

subsection \<open>dict\<close>

text \<open>A dict is a list of key-value pairs with distinct keys, in insertion order.\<close>

type_synonym ('k, 'v) dict = "('k \<times> 'v) list"

fun dict_set :: "('k, 'v) dict \<Rightarrow> 'k \<Rightarrow> 'v \<Rightarrow> ('k, 'v) dict" where
  "dict_set [] k v = [(k, v)]"
| "dict_set ((k', v') # d) k v = (if k' = k then (k, v) # d else (k', v') # dict_set d k v)"

definition dict_get :: "('k, 'v) dict \<Rightarrow> 'k \<Rightarrow> 'v \<Rightarrow> 'v" where
  \<comment> \<open>\<open>d.get(k, default)\<close>\<close>
  "dict_get d k dflt = (case map_of d k of None \<Rightarrow> dflt | Some v \<Rightarrow> v)"

subsection \<open>Floats\<close>

record decimal =
  mant :: int
  expo :: int

definition dec_val :: "decimal \<Rightarrow> rat" where
  "dec_val d = (if 0 \<le> expo d then of_int (mant d) * 10 ^ nat (expo d)
                else of_int (mant d) / 10 ^ nat (- expo d))"

definition round_half_even :: "rat \<Rightarrow> int" where
  "round_half_even r = (let f = \<lfloor>r\<rfloor>; d = r - of_int f in
     if d < 1 / 2 then f else if 1 / 2 < d then f + 1 else if even f then f else f + 1)"

definition py_round :: "rat \<Rightarrow> nat \<Rightarrow> decimal" where
  \<comment> \<open>\<open>round(x, n)\<close>\<close>
  "py_round x n = \<lparr>mant = round_half_even (x * 10 ^ n), expo = - int n\<rparr>"

definition trunc :: "rat \<Rightarrow> int" where
  \<comment> \<open>\<open>int(x)\<close> of a float: towards zero\<close>
  "trunc x = (if 0 \<le> x then \<lfloor>x\<rfloor> else \<lceil>x\<rceil>)"

datatype pyfloat = Fin decimal | NaN | PInf | NInf

fun take_digits :: "string \<Rightarrow> string \<Rightarrow> string \<times> string" where
  \<comment> \<open>the longest run of digits, single underscores between digits allowed\<close>
  "take_digits acc [] = (rev acc, [])"
| "take_digits acc (c # cs) =
     (if is_ascii_digit c then take_digits (c # acc) cs
      else if c = CHR ''_'' \<and> acc \<noteq> [] \<and> cs \<noteq> [] \<and> is_ascii_digit (hd cs) then take_digits acc cs
      else (rev acc, c # cs))"

definition digits_nat :: "string \<Rightarrow> nat" where
  "digits_nat ds = foldl (\<lambda>a c. a * 10 + digit_val c) 0 ds"

definition float_overflows :: "decimal \<Rightarrow> bool" where
  \<comment> \<open>values that round to infinity in binary64\<close>
  "float_overflows d = (2 ^ 1024 - 2 ^ 970 \<le> \<bar>dec_val d\<bar>)"

definition py_float :: "string \<Rightarrow> exn + pyfloat" where
  \<comment> \<open>\<open>float(s)\<close>: the decimal that the literal denotes; the rounding to 53 bits,
      underflow and the sign of zero are not modelled\<close>
  "py_float s =
     (let t = strip s;
          neg = (t \<noteq> [] \<and> hd t = CHR ''-'');
          body = (if t \<noteq> [] \<and> (hd t = CHR ''-'' \<or> hd t = CHR ''+'') then tl t else t)
      in if lower body = ''inf'' \<or> lower body = ''infinity'' then Inr (if neg then NInf else PInf)
         else if lower body = ''nan'' then Inr NaN
         else (let (ip, r1) = take_digits [] body;
                   (fp, r2) = (if r1 \<noteq> [] \<and> hd r1 = CHR ''.'' then take_digits [] (tl r1) else ([], r1))
               in if ip = [] \<and> fp = [] then Inl ValueError
                  else (let m = int (digits_nat (ip @ fp));
                            sm = (if neg then - m else m)
                        in if r2 = [] then
                             (let d = \<lparr>mant = sm, expo = - int (length fp)\<rparr>
                              in Inr (if float_overflows d then (if neg then NInf else PInf) else Fin d))
                           else if hd r2 = CHR ''e'' \<or> hd r2 = CHR ''E'' then
                             (let r3 = tl r2;
                                  eneg = (r3 \<noteq> [] \<and> hd r3 = CHR ''-'');
                                  r4 = (if r3 \<noteq> [] \<and> (hd r3 = CHR ''-'' \<or> hd r3 = CHR ''+'') then tl r3 else r3);
                                  (ed, r5) = take_digits [] r4
                              in if ed = [] \<or> r5 \<noteq> [] then Inl ValueError
                                 else (let e = int (digits_nat ed);
                                           d = \<lparr>mant = sm, expo = (if eneg then - e else e) - int (length fp)\<rparr>
                                       in Inr (if float_overflows d then (if neg then NInf else PInf) else Fin d)))
                           else Inl ValueError)))"

definition int_of_float :: "pyfloat \<Rightarrow> exn + int" where
  \<comment> \<open>\<open>int(x)\<close> of a float\<close>
  "int_of_float x = (case x of Fin d \<Rightarrow> Inr (trunc (dec_val d)) | NaN \<Rightarrow> Inl ValueError
                     | PInf \<Rightarrow> Inl OverflowError | NInf \<Rightarrow> Inl OverflowError)"

section \<open>JSON values\<close>

text \<open>The dicts, lists and scalars that \<open>build_snapshot\<close> assembles and \<open>json.dumps\<close> prints.\<close>

datatype json =
    JNull | JBool bool | JInt int | JFloat pyfloat | JStr string
  | JArr "json list" | JObj "(string \<times> json) list"

definition opt_int :: "int option \<Rightarrow> json" where
  "opt_int x = (case x of None \<Rightarrow> JNull | Some n \<Rightarrow> JInt n)"

definition opt_str :: "string option \<Rightarrow> json" where
  "opt_str x = (case x of None \<Rightarrow> JNull | Some s \<Rightarrow> JStr s)"

section \<open>The host\<close>

datatype proc = Exited int string | Failed exn

record host =
  proc_stat :: "string option"
  proc_loadavg :: "string option"
  proc_net_dev :: "string option"
  proc_meminfo :: "string option"
  proc_uptime :: "string option"
  time_rates :: rat
  time_now :: rat
  hostname :: string
  cpu_count :: "nat option"
  statvfs_root :: "(nat \<times> nat \<times> nat) option"
  sys_block :: "string list option"
  which :: "string \<Rightarrow> bool"
  run :: "string \<Rightarrow> proc"

text \<open>
  A \<open>host\<close> is what one call of \<open>build_snapshot\<close> sees of the machine: the content of
  each file it opens (\<open>None\<close> when \<open>open\<close> raises), the two values of \<open>time.time()\<close>,
  \<open>socket.gethostname()\<close>, \<open>os.cpu_count()\<close>, the fields \<open>f_frsize\<close>, \<open>f_blocks\<close>, \<open>f_bfree\<close>
  of \<open>os.statvfs("/")\<close> (\<open>None\<close> when it raises), \<open>os.listdir("/sys/block")\<close> (\<open>None\<close> when
  it raises), whether \<open>shutil.which\<close> finds a tool, and for each shell command its exit
  status and standard output, or the exception that \<open>subprocess.check_output\<close> raises
  other than \<open>CalledProcessError\<close>.
\<close>

section \<open>Utils\<close>

definition sh :: "(string \<Rightarrow> proc) \<Rightarrow> string \<Rightarrow> exn + string" where
  "sh r cmd = (case r cmd of
       Exited rc out \<Rightarrow> if rc = 0 then Inr (strip out) else Inr []
     | Failed e \<Rightarrow> Inl e)"

definition now_ms :: "rat \<Rightarrow> int" where
  "now_ms t = trunc (t * 1000)"

definition uptime_seconds :: "string option \<Rightarrow> int option" where
  "uptime_seconds src =
     (case src of
        None \<Rightarrow> None
      | Some txt \<Rightarrow>
          (case bind_exn (bind_exn (index (py_split txt) 0) py_float) int_of_float of
             Inl e \<Rightarrow> None
           | Inr n \<Rightarrow> Some n))"

section \<open>CpuPercent\<close>

record CpuPercent =
  prev_total :: "int option"
  prev_idle :: "int option"
  cpu_value :: "decimal option"

definition CpuPercent_init :: CpuPercent where
  "CpuPercent_init = \<lparr>prev_total = None, prev_idle = None, cpu_value = None\<rparr>"

definition readline :: "string \<Rightarrow> string" where
  \<comment> \<open>\<open>f.readline()\<close> of a text file; the line terminator is left out, the callers
      discard it with \<open>split()\<close>\<close>
  "readline s = takeWhile (\<lambda>c. c \<noteq> CHR 0x0A \<and> c \<noteq> CHR 0x0D) s"

definition read_stat :: "string option \<Rightarrow> exn + int \<times> int" where
  \<comment> \<open>\<open>CpuPercent._read_stat\<close>; the argument is the content of /proc/stat, \<open>None\<close>
      when it cannot be opened\<close>
  "read_stat src =
     (case src of
        None \<Rightarrow> Inl OSError
      | Some txt \<Rightarrow>
          (let parts = py_split (readline txt) in
           case map_exn py_int (drop 1 parts) of
             Inl e \<Rightarrow> Inl e
           | Inr vals \<Rightarrow>
               if length vals < 4 then Inl IndexError
               else Inr (sum_list (take 8 vals),
                         vals ! 3 + (if length vals > 4 then vals ! 4 else 0))))"

definition compute :: "CpuPercent \<Rightarrow> string option \<Rightarrow> exn + decimal option \<times> CpuPercent" where
  \<comment> \<open>\<open>CpuPercent.compute\<close>: the result and the updated object\<close>
  "compute self src =
     (case read_stat src of
        Inl e \<Rightarrow> Inl e
      | Inr (tot, idl) \<Rightarrow>
          (case prev_total self of
             None \<Rightarrow> Inr (None, self\<lparr>prev_total := Some tot, prev_idle := Some idl, cpu_value := None\<rparr>)
           | Some pt \<Rightarrow>
               (case prev_idle self of
                  None \<Rightarrow> Inl TypeError
                | Some pidle \<Rightarrow>
                    (let dt = tot - pt;
                         di = idl - pidle;
                         self' = self\<lparr>prev_total := Some tot, prev_idle := Some idl\<rparr>
                     in if dt \<le> 0 then Inr (None, self'\<lparr>cpu_value := None\<rparr>)
                        else (let usage = max 0 (min 100 ((1 - of_int di / of_int dt) * 100));
                                  v = py_round usage 1
                              in Inr (Some v, self'\<lparr>cpu_value := Some v\<rparr>))))))"

section \<open>NetRates\<close>

record NetRates =
  prev :: "(string, int \<times> int) dict option"
  prev_t :: "rat option"

definition NetRates_init :: NetRates where
  "NetRates_init = \<lparr>prev = None, prev_t = None\<rparr>"

fun read_dev_lines :: "(string, int \<times> int) dict \<Rightarrow> string list \<Rightarrow> exn + (string, int \<times> int) dict" where
  "read_dev_lines data [] = Inr data"
| "read_dev_lines data (line # lns) =
     (if CHR '':'' \<notin> set line then read_dev_lines data lns
      else (let ifname = strip (fst (split_colon line));
                cols = py_split (snd (split_colon line))
            in case bind_exn (index cols 0) py_int of
                 Inl e \<Rightarrow> Inl e
               | Inr rx \<Rightarrow>
                   (case bind_exn (index cols 8) py_int of
                      Inl e \<Rightarrow> Inl e
                    | Inr tx \<Rightarrow> read_dev_lines (dict_set data ifname (rx, tx)) lns)))"

definition read_dev :: "string option \<Rightarrow> exn + (string, int \<times> int) dict" where
  \<comment> \<open>\<open>NetRates._read\<close>; the argument is the content of /proc/net/dev, \<open>None\<close> when
      it cannot be opened\<close>
  "read_dev src =
     (case src of
        None \<Rightarrow> Inl OSError
      | Some txt \<Rightarrow> read_dev_lines [] (drop 2 (text_lines txt)))"

definition rates ::
  "NetRates \<Rightarrow> string option \<Rightarrow> rat \<Rightarrow> exn + (rat \<times> (string, int \<times> int) dict) \<times> NetRates" where
  \<comment> \<open>\<open>NetRates.rates\<close>; \<open>t\<close> is the value of \<open>time.time()\<close>.  The comprehension and the
      loop over \<open>cur\<close> produce one entry per key of \<open>cur\<close>, in its order.\<close>
  "rates self src t =
     (case read_dev src of
        Inl e \<Rightarrow> Inl e
      | Inr cur \<Rightarrow>
          (case prev self of
             None \<Rightarrow>
               Inr ((1, map (\<lambda>(k, v). (k, (0, 0))) cur), self\<lparr>prev := Some cur, prev_t := Some t\<rparr>)
           | Some pv \<Rightarrow>
               (case prev_t self of
                  None \<Rightarrow> Inl TypeError
                | Some pt \<Rightarrow>
                    (let dt = max (1 / 1000) (t - pt);
                         rs = map (\<lambda>(k, (rx, tx)).
                                (let pr = dict_get pv k (rx, tx)
                                 in (k, (trunc (of_int (rx - fst pr) / dt),
                                         trunc (of_int (tx - snd pr) / dt))))) cur
                     in Inr ((dt, rs), self\<lparr>prev := Some cur, prev_t := Some t\<rparr>)))))"

section \<open>Disks\<close>

definition is_lower_letter :: "char \<Rightarrow> bool" where
  "is_lower_letter c = (97 \<le> code c \<and> code c \<le> 122)"

definition at_end :: "string \<Rightarrow> bool" where
  \<comment> \<open>the regular expression \<open>$\<close>: the end of the string, or before a final newline\<close>
  "at_end r = (r = [] \<or> r = [CHR 0x0A])"

definition match_pseudo :: "string \<Rightarrow> bool" where
  \<comment> \<open>\<open>re.match(r'^(loop|ram|dm-|md)', name)\<close>\<close>
  "match_pseudo name = (startswith name ''loop'' \<or> startswith name ''ram''
                        \<or> startswith name ''dm-'' \<or> startswith name ''md'')"

definition match_sd :: "string \<Rightarrow> bool" where
  \<comment> \<open>\<open>re.match(r'^(sd[a-z]+)$', name)\<close>\<close>
  "match_sd name = (startswith name ''sd'' \<and>
     takeWhile is_lower_letter (drop 2 name) \<noteq> [] \<and>
     at_end (dropWhile is_lower_letter (drop 2 name)))"

definition match_nvme :: "string \<Rightarrow> bool" where
  \<comment> \<open>\<open>re.match(r'^(nvme\d+n\d+)$', name)\<close>\<close>
  "match_nvme name = (startswith name ''nvme'' \<and>
     (let r1 = drop 4 name; r2 = dropWhile is_ascii_digit r1
      in takeWhile is_ascii_digit r1 \<noteq> [] \<and> startswith r2 ''n'' \<and>
         takeWhile is_ascii_digit (drop 1 r2) \<noteq> [] \<and>
         at_end (dropWhile is_ascii_digit (drop 1 r2))))"

definition list_block_devices :: "string list option \<Rightarrow> exn + string list" where
  "list_block_devices listing =
     (case listing of
        None \<Rightarrow> Inl OSError
      | Some names \<Rightarrow>
          Inr (sort (filter (\<lambda>name. \<not> match_pseudo name \<and> (match_sd name \<or> match_nvme name)) names)))"

fun search_drive_state :: "string \<Rightarrow> string option" where
  \<comment> \<open>group 1 of \<open>re.search(r"drive state is:\s+(.*)", out)\<close>\<close>
  "search_drive_state [] = None"
| "search_drive_state (c # cs) =
     (let r = drop 15 (c # cs)
      in if startswith (c # cs) ''drive state is:'' \<and> r \<noteq> [] \<and> py_isspace (hd r)
         then Some (takeWhile (\<lambda>x. x \<noteq> CHR 0x0A) (dropWhile py_isspace r))
         else search_drive_state cs)"

definition disk_state :: "(string \<Rightarrow> proc) \<Rightarrow> string \<Rightarrow> exn + string option" where
  "disk_state r devname =
     (if startswith devname ''nvme'' then Inr (Some ''active'')
      else (case sh r (''hdparm -C /dev/'' @ devname) of
              Inl e \<Rightarrow> Inl e
            | Inr out \<Rightarrow>
                (case search_drive_state out of
                   None \<Rightarrow> Inr None
                 | Some g \<Rightarrow>
                     (let state = lower (strip g)
                      in if contains state ''standby'' then Inr (Some ''standby'')
                         else if contains state ''sleep'' then Inr (Some ''standby'')
                         else if contains state ''active'' \<or> contains state ''idle'' then Inr (Some ''active'')
                         else Inr None))))"

definition read_disks :: "host \<Rightarrow> exn + json" where
  "read_disks h =
     (case list_block_devices (sys_block h) of
        Inl e \<Rightarrow> Inl e
      | Inr names \<Rightarrow>
          (case map_exn (\<lambda>name. case disk_state (run h) name of
                                   Inl e \<Rightarrow> Inl e
                                 | Inr st \<Rightarrow> Inr (JObj [(''name'', JStr name), (''state'', opt_str st),
                                                         (''temp_C'', JNull)])) names of
             Inl e \<Rightarrow> Inl e
           | Inr disks \<Rightarrow> Inr (JArr disks)))"

section \<open>Proxmox\<close>

definition dot_plus_end :: "string \<Rightarrow> string option" where
  \<comment> \<open>\<open>(.+)$\<close> on the rest of the string\<close>
  "dot_plus_end r =
     (let b = (if r \<noteq> [] \<and> last r = CHR 0x0A then butlast r else r)
      in if b \<noteq> [] \<and> CHR 0x0A \<notin> set b then Some b else None)"

fun match_ws_tail :: "string \<Rightarrow> string option" where
  \<comment> \<open>\<open>\s*(.+)$\<close>, the longest run of whitespace first\<close>
  "match_ws_tail [] = None"
| "match_ws_tail (c # cs) =
     (if py_isspace c then (case match_ws_tail cs of Some g \<Rightarrow> Some g | None \<Rightarrow> dot_plus_end (c # cs))
      else dot_plus_end (c # cs))"

fun search_hostname :: "string \<Rightarrow> string option" where
  \<comment> \<open>group 1 of \<open>re.search(r'hostname:\s*(.+)$', cfg, re.IGNORECASE)\<close>\<close>
  "search_hostname [] = None"
| "search_hostname (c # cs) =
     (if lower (take 9 (c # cs)) = ''hostname:''
      then (case match_ws_tail (drop 9 (c # cs)) of Some g \<Rightarrow> Some g | None \<Rightarrow> search_hostname cs)
      else search_hostname cs)"

definition skip_line :: "string \<Rightarrow> bool" where
  \<comment> \<open>\<open>not ln.strip() or ln.lower().startswith(("vmid","id"))\<close>\<close>
  "skip_line l = (strip l = [] \<or> startswith (lower l) ''vmid'' \<or> startswith (lower l) ''id'')"

definition guest :: "string \<Rightarrow> string \<Rightarrow> int \<Rightarrow> string \<Rightarrow> string \<Rightarrow> json" where
  "guest typ node vmid name status =
     JObj [(''id'', JInt vmid), (''name'', JStr (if name = [] then py_str vmid else name)),
           (''status'', JStr status), (''node'', JStr node), (''type'', JStr typ)]"

fun qm_lines :: "string \<Rightarrow> string list \<Rightarrow> exn + json list" where
  "qm_lines node [] = Inr []"
| "qm_lines node (l # ls) =
     (if skip_line l then qm_lines node ls
      else (let parts = py_split l
            in if length parts \<ge> 3 \<and> py_isdigit (parts ! 0) then
                 (case py_int (parts ! 0) of
                    Inl e \<Rightarrow> Inl e
                  | Inr vmid \<Rightarrow>
                      (case qm_lines node ls of
                         Inl e \<Rightarrow> Inl e
                       | Inr vs \<Rightarrow> Inr (guest ''qemu'' node vmid (join '' '' (butlast (tl parts)))
                                            (lower (last parts)) # vs)))
               else qm_lines node ls))"

fun pct_lines :: "(string \<Rightarrow> proc) \<Rightarrow> string \<Rightarrow> string list \<Rightarrow> exn + json list" where
  "pct_lines r node [] = Inr []"
| "pct_lines r node (l # ls) =
     (if skip_line l then pct_lines r node ls
      else (let parts = py_split l
            in if length parts \<ge> 3 \<and> py_isdigit (parts ! 0) then
                 (case py_int (parts ! 0) of
                    Inl e \<Rightarrow> Inl e
                  | Inr vmid \<Rightarrow>
                      (let name = join '' '' (butlast (tl parts))
                       in case (if py_isdigit name
                                then (case sh r (''pct config '' @ py_str vmid @ '' | grep -i '' @ [CHR 0x27] @ ''^hostname:'' @ [CHR 0x27]) of
                                        Inl e \<Rightarrow> Inl e
                                      | Inr cfg \<Rightarrow>
                                          (case search_hostname cfg of
                                             None \<Rightarrow> Inr name
                                           | Some g \<Rightarrow> Inr (strip g)))
                                else Inr name) of
                            Inl e \<Rightarrow> Inl e
                          | Inr name' \<Rightarrow>
                              (case pct_lines r node ls of
                                 Inl e \<Rightarrow> Inl e
                               | Inr cs \<Rightarrow> Inr (guest ''lxc'' node vmid name' (lower (last parts)) # cs))))
               else pct_lines r node ls))"

definition is_running :: "json \<Rightarrow> bool" where
  \<comment> \<open>\<open>v["status"]=="running"\<close>\<close>
  "is_running v = (case v of JObj kvs \<Rightarrow> map_of kvs ''status'' = Some (JStr ''running'') | _ \<Rightarrow> False)"

definition proxmox_info :: "host \<Rightarrow> exn + json" where
  "proxmox_info h =
     (case (if which h ''qm''
            then (case sh (run h) ''qm list --no-status --full 2>/dev/null || qm list 2>/dev/null'' of
                    Inl e \<Rightarrow> Inl e
                  | Inr out \<Rightarrow> qm_lines (hostname h) (splitlines out))
            else Inr []) of
        Inl e \<Rightarrow> Inl e
      | Inr vms \<Rightarrow>
          (case (if which h ''pct''
                 then (case sh (run h) ''pct list 2>/dev/null'' of
                         Inl e \<Rightarrow> Inl e
                       | Inr out \<Rightarrow> pct_lines (run h) (hostname h) (splitlines out))
                 else Inr []) of
             Inl e \<Rightarrow> Inl e
           | Inr lxcs \<Rightarrow>
               Inr (JObj [(''vm_running'', JInt (int (length (filter is_running vms)))),
                          (''vm_total'', JInt (int (length vms))),
                          (''lxc_running'', JInt (int (length (filter is_running lxcs)))),
                          (''lxc_total'', JInt (int (length lxcs))),
                          (''vms'', JArr vms), (''lxcs'', JArr lxcs)])))"

section \<open>Snapshot\<close>

fun mem_lines :: "(string, int) dict \<Rightarrow> string list \<Rightarrow> exn + (string, int) dict" where
  "mem_lines m [] = Inr m"
| "mem_lines m (l # ls) =
     (if CHR '':'' \<notin> set l then Inl ValueError
      else (case bind_exn (index (py_split (strip (snd (split_colon l)))) 0) py_int of
              Inl e \<Rightarrow> Inl e
            | Inr n \<Rightarrow> mem_lines (dict_set m (strip (fst (split_colon l))) (n * 1024)) ls))"

definition mem_info :: "string option \<Rightarrow> int option \<times> int option \<times> int option \<times> int option" where
  "mem_info src =
     (case src of
        None \<Rightarrow> (None, None, None, None)
      | Some txt \<Rightarrow>
          (case mem_lines [] (text_lines txt) of
             Inl e \<Rightarrow> (None, None, None, None)
           | Inr m \<Rightarrow>
               (let tot = map_of m ''MemTotal'';
                    free = dict_get m ''MemFree'' 0 + dict_get m ''Buffers'' 0
                         + dict_get m ''Cached'' 0 + dict_get m ''SReclaimable'' 0;
                    used = (case tot of None \<Rightarrow> None | Some t \<Rightarrow> Some (t - free))
                in (tot, used, map_of m ''SwapTotal'',
                    Some (dict_get m ''SwapTotal'' 0 - dict_get m ''SwapFree'' 0)))))"

definition fs_root :: "(nat \<times> nat \<times> nat) option \<Rightarrow> exn + json" where
  "fs_root st =
     (case st of
        None \<Rightarrow> Inl OSError
      | Some (f_frsize, f_blocks, f_bfree) \<Rightarrow>
          (let tot = int f_frsize * int f_blocks;
               used = tot - int f_frsize * int f_bfree
           in Inr (JObj [(''mount'', JStr ''/''), (''total_bytes'', JInt tot), (''used_bytes'', JInt used)])))"

definition is_addr_char :: "char \<Rightarrow> bool" where
  \<comment> \<open>the class \<open>[0-9\.]\<close>\<close>
  "is_addr_char c = (is_ascii_digit c \<or> c = CHR ''.'')"

fun search_default :: "string \<Rightarrow> (string \<times> string) option" where
  \<comment> \<open>groups 1 and 2 of \<open>re.search(r'default via ([0-9\.]+) dev (\S+)', route)\<close>\<close>
  "search_default [] = None"
| "search_default (c # cs) =
     (let r = drop 12 (c # cs);
          gw = takeWhile is_addr_char r;
          r2 = dropWhile is_addr_char r;
          dev = takeWhile (\<lambda>x. \<not> py_isspace x) (drop 5 r2)
      in if startswith (c # cs) ''default via '' \<and> gw \<noteq> [] \<and> startswith r2 '' dev '' \<and> dev \<noteq> []
         then Some (gw, dev)
         else search_default cs)"

definition addr_line :: "string \<Rightarrow> exn + string \<times> string" where
  \<comment> \<open>\<open>cols = ln.split(); ifname = cols[1]; cidr = cols[3]\<close>\<close>
  "addr_line l =
     (let cols = py_split l
      in case index cols 1 of
           Inl e \<Rightarrow> Inl e
         | Inr ifname \<Rightarrow> (case index cols 3 of Inl e \<Rightarrow> Inl e | Inr cidr \<Rightarrow> Inr (ifname, cidr)))"

definition primary_ip :: "(string \<Rightarrow> proc) \<Rightarrow> exn + json" where
  "primary_ip r =
     (case sh r ''ip -4 route show default | head -n1'' of
        Inl e \<Rightarrow> Inl e
      | Inr route \<Rightarrow>
          (let m = search_default route;
               gw = map_option fst m;
               dev = map_option snd m
           in case sh r ''ip -4 -o addr show'' of
                Inl e \<Rightarrow> Inl e
              | Inr out \<Rightarrow>
                  (case map_exn addr_line (splitlines out) of
                     Inl e \<Rightarrow> Inl e
                   | Inr addrs \<Rightarrow>
                       (let prim_ip = (case dev of
                                         None \<Rightarrow> None
                                       | Some d \<Rightarrow> (if d = [] then None
                                                     else map_option snd (find (\<lambda>a. fst a = d) addrs)))
                        in Inr (JObj [(''primary_ifname'', opt_str dev), (''primary_ipv4'', opt_str prim_ip),
                                      (''gateway_ipv4'', opt_str gw), (''route_metric'', JNull),
                                      (''ip_status'', JStr ''ok''),
                                      (''ipv4_addrs'',
                                       JArr (map (\<lambda>a. JObj [(''if'', JStr (fst a)), (''addr'', JStr (snd a))])
                                               addrs))])))))"

definition VERSION :: string where
  "VERSION = ''1.1.26''"

definition SCHEMA :: int where
  "SCHEMA = 1"

definition float_zero :: pyfloat where
  "float_zero = Fin \<lparr>mant = 0, expo = 0\<rparr>"

definition loadavg :: "string option \<Rightarrow> pyfloat \<times> pyfloat \<times> pyfloat" where
  \<comment> \<open>the \<open>try\<close> block of \<open>build_snapshot\<close> that reads /proc/loadavg\<close>
  "loadavg src =
     (case src of
        None \<Rightarrow> (float_zero, float_zero, float_zero)
      | Some txt \<Rightarrow>
          (let la = py_split txt
           in case bind_exn (index la 0) py_float of
                Inl e \<Rightarrow> (float_zero, float_zero, float_zero)
              | Inr l1 \<Rightarrow>
                  (case bind_exn (index la 1) py_float of
                     Inl e \<Rightarrow> (float_zero, float_zero, float_zero)
                   | Inr l5 \<Rightarrow>
                       (case bind_exn (index la 2) py_float of
                          Inl e \<Rightarrow> (float_zero, float_zero, float_zero)
                        | Inr l15 \<Rightarrow> (l1, l5, l15)))))"

definition is_virtual :: "string \<Rightarrow> bool" where
  \<comment> \<open>\<open>ifn in virt_if or ifn.startswith(("veth","tap","fw","vmbr"))\<close>\<close>
  "is_virtual ifn = (ifn = ''lo'' \<or> startswith ifn ''veth'' \<or> startswith ifn ''tap''
                     \<or> startswith ifn ''fw'' \<or> startswith ifn ''vmbr'')"

definition iface :: "string \<times> int \<times> int \<Rightarrow> json" where
  "iface e = JObj [(''if'', JStr (fst e)), (''rx_Bps'', JInt (fst (snd e))),
                   (''tx_Bps'', JInt (snd (snd e))), (''virtual'', JBool (is_virtual (fst e)))]"

definition net_block :: "rat \<Rightarrow> (string, int \<times> int) dict \<Rightarrow> json" where
  \<comment> \<open>the totals, the interface list and the \<open>"net"\<close> entry of \<open>build_snapshot\<close>\<close>
  "net_block dt rs =
     (let total_rx = sum_list (map (\<lambda>e. fst (snd e)) rs);
          total_tx = sum_list (map (\<lambda>e. snd (snd e)) rs);
          ifaces = map iface (sort_key fst rs)
      in JObj [(''window_s'', JFloat (Fin (py_round dt 3))),
               (''total_rx_Bps'', JInt total_rx), (''total_tx_Bps'', JInt total_tx),
               (''total_rx_bps'', JInt (total_rx * 8)), (''total_tx_bps'', JInt (total_tx * 8)),
               (''interfaces'', JArr ifaces)])"

definition build_snapshot ::
  "host \<Rightarrow> CpuPercent \<times> NetRates \<Rightarrow> (exn + json) \<times> CpuPercent \<times> NetRates" where
  \<comment> \<open>the result or the exception raised, and the two trackers as the call leaves them\<close>
  "build_snapshot h calc =
     (case compute (fst calc) (proc_stat h) of
        Inl e \<Rightarrow> (Inl e, calc)
      | Inr (cpu_pct, cpu_calc) \<Rightarrow>
          (let (load1, load5, load15) = loadavg (proc_loadavg h)
           in case rates (snd calc) (proc_net_dev h) (time_rates h) of
                Inl e \<Rightarrow> (Inl e, cpu_calc, snd calc)
              | Inr ((dt, rs), net_calc) \<Rightarrow>
                  (let (mem_t, mem_u, swap_t, swap_u) = mem_info (proc_meminfo h) in
                   (case fs_root (statvfs_root h) of
                      Inl e \<Rightarrow> Inl e
                    | Inr fs \<Rightarrow>
                        (case proxmox_info h of
                           Inl e \<Rightarrow> Inl e
                         | Inr pve \<Rightarrow>
                             (case read_disks h of
                                Inl e \<Rightarrow> Inl e
                              | Inr disks \<Rightarrow>
                                  (case primary_ip (run h) of
                                     Inl e \<Rightarrow> Inl e
                                   | Inr ip \<Rightarrow>
                                       Inr (JObj [
                                         (''schema_version'', JInt SCHEMA),
                                         (''script_version'', JStr VERSION),
                                         (''timestamp_ms'', JInt (now_ms (time_now h))),
                                         (''hostname'', JStr (hostname h)),
                                         (''uptime_s'', opt_int (uptime_seconds (proc_uptime h))),
                                         (''cpu'', JObj [
                                            (''percent'', (case cpu_pct of None \<Rightarrow> JNull | Some v \<Rightarrow> JFloat (Fin v))),
                                            (''cores'', (case cpu_count h of None \<Rightarrow> JNull
                                                         | Some n \<Rightarrow> if n = 0 then JNull else JInt (int n))),
                                            (''load1'', JFloat load1), (''load5'', JFloat load5),
                                            (''load15'', JFloat load15)]),
                                         (''ram'', JObj [
                                            (''total_bytes'', opt_int mem_t),
                                            (''used_bytes'', opt_int mem_u),
                                            (''swap_total_bytes'', opt_int swap_t),
                                            (''swap_used_bytes'', opt_int swap_u)]),
                                         (''filesystems'', JArr [fs]),
                                         (''proxmox'', pve),
                                         (''disks'', disks),
                                         (''ip'', ip),
                                         (''net'', net_block dt rs)]))))),
                   cpu_calc, net_calc)))"

section \<open>json.dumps\<close>

definition hex_digit :: "nat \<Rightarrow> char" where
  "hex_digit n = ''0123456789abcdef'' ! (n mod 16)"

definition escape_char :: "char \<Rightarrow> string" where
  \<comment> \<open>the replacement of one character by \<open>py_encode_basestring_ascii\<close>\<close>
  "escape_char c = (let n = code c in
     if c = CHR 0x22 then [CHR 0x5C, CHR 0x22]
     else if c = CHR 0x5C then [CHR 0x5C, CHR 0x5C]
     else if n = 10 then [CHR 0x5C, CHR ''n'']
     else if n = 13 then [CHR 0x5C, CHR ''r'']
     else if n = 9 then [CHR 0x5C, CHR ''t'']
     else if n = 8 then [CHR 0x5C, CHR ''b'']
     else if n = 12 then [CHR 0x5C, CHR ''f'']
     else if n < 32 \<or> 126 < n then [CHR 0x5C, CHR ''u'', CHR ''0'', CHR ''0'', hex_digit (n div 16), hex_digit n]
     else [c])"

definition encode_str :: "string \<Rightarrow> string" where
  "encode_str s = CHR 0x22 # concat (map escape_char s) @ [CHR 0x22]"

fun strip_zeros :: "string \<Rightarrow> string" where
  \<comment> \<open>a reversed digit string without its leading zeros\<close>
  "strip_zeros [] = []"
| "strip_zeros (c # cs) = (if c = CHR ''0'' then strip_zeros cs else c # cs)"

definition float_repr :: "decimal \<Rightarrow> string" where
  \<comment> \<open>\<open>float.__repr__\<close> of a finite float whose shortest decimal is \<open>mant * 10 ^ expo\<close>:
      positional notation when the decimal point falls after -4 and up to 16 digits,
      otherwise scientific notation with an exponent of at least two digits\<close>
  "float_repr d =
     (if mant d = 0 then ''0.0''
      else (let ds0 = nat_digits (nat \<bar>mant d\<bar>);
                ds = rev (strip_zeros (rev ds0));
                n = int (length ds);
                decpt = int (length ds0) + expo d;
                sgn = (if mant d < 0 then ''-'' else [])
            in if - 4 < decpt \<and> decpt \<le> 16 then
                 (if decpt \<le> 0 then sgn @ ''0.'' @ replicate (nat (- decpt)) (CHR ''0'') @ ds
                  else if n \<le> decpt then sgn @ ds @ replicate (nat (decpt - n)) (CHR ''0'') @ ''.0''
                  else sgn @ take (nat decpt) ds @ ''.'' @ drop (nat decpt) ds)
               else (let e = decpt - 1;
                         es = nat_digits (nat \<bar>e\<bar>)
                     in sgn @ [hd ds] @ (if 1 < n then ''.'' @ tl ds else [])
                        @ ''e'' @ (if e < 0 then ''-'' else ''+'')
                        @ (if length es < 2 then ''0'' @ es else es))))"

definition floatstr :: "pyfloat \<Rightarrow> string" where
  "floatstr x = (case x of NaN \<Rightarrow> ''NaN'' | PInf \<Rightarrow> ''Infinity'' | NInf \<Rightarrow> ''-Infinity''
                 | Fin d \<Rightarrow> float_repr d)"

fun dumps :: "json \<Rightarrow> string"
  and dumps_list :: "json list \<Rightarrow> string"
  and dumps_items :: "(string \<times> json) list \<Rightarrow> string" where
  \<comment> \<open>\<open>json.dumps(payload, separators=(',',':'))\<close>\<close>
  "dumps JNull = ''null''"
| "dumps (JBool b) = (if b then ''true'' else ''false'')"
| "dumps (JInt n) = py_str n"
| "dumps (JFloat x) = floatstr x"
| "dumps (JStr s) = encode_str s"
| "dumps (JArr xs) = ''['' @ dumps_list xs @ '']''"
| "dumps (JObj kvs) = ''{'' @ dumps_items kvs @ ''}''"
| "dumps_list [] = []"
| "dumps_list [x] = dumps x"
| "dumps_list (x # y # xs) = dumps x @ '','' @ dumps_list (y # xs)"
| "dumps_items [] = []"
| "dumps_items [(k, v)] = encode_str k @ '':'' @ dumps v"
| "dumps_items ((k, v) # kv # kvs) = encode_str k @ '':'' @ dumps v @ '','' @ dumps_items (kv # kvs)"

section \<open>Serial I/O\<close>

datatype action = Open | Write string | Sleep rat | Close

record cycle =
  rx :: "exn + string"
  seen :: host
  tx :: "exn option"

text \<open>
  One pass of the \<open>while True\<close> loop of \<open>serve\<close> meets a \<open>cycle\<close>: what
  \<open>ser.readline().decode(errors="ignore")\<close> returns or raises, the host as
  \<open>build_snapshot\<close> would see it, and the exception that \<open>ser.write\<close> would raise, if
  any.  The configuration only fixes the device path, the baud rate and the debug
  printing to standard output, which are not modelled.
\<close>

definition GET :: "nat list" where
  "GET = [71, 69, 84]"

definition serve_cycle ::
  "CpuPercent \<times> NetRates \<Rightarrow> cycle \<Rightarrow> action list \<times> (CpuPercent \<times> NetRates) \<times> exn option" where
  \<comment> \<open>the body of the \<open>try\<close>: the calls made on the serial port, the trackers afterwards
      and the exception that reaches the handlers\<close>
  "serve_cycle calc c =
     (case rx c of
        Inl e \<Rightarrow> ([], calc, Some e)
      | Inr raw \<Rightarrow>
          (let line = strip raw
           in if line = [] then ([], calc, None)
              else (let cmd = upper (strip line)
                    in if cmd = GET then
                         (case build_snapshot (seen c) calc of
                            (Inl e, calc') \<Rightarrow> ([], calc', Some e)
                          | (Inr payload, calc') \<Rightarrow>
                              ([Write (dumps payload @ [CHR 0x0A])], calc', tx c))
                       else ([], calc, None))))"

datatype loop_end = Reading "CpuPercent \<times> NetRates" | Disconnected "CpuPercent \<times> NetRates"

fun serve_loop :: "CpuPercent \<times> NetRates \<Rightarrow> cycle list \<Rightarrow> action list \<times> loop_end" where
  \<comment> \<open>the \<open>while True\<close> loop over the cycles it meets: it is left only by a
      \<open>SerialException\<close>; any other exception costs a sleep of 0.1 s\<close>
  "serve_loop calc [] = ([], Reading calc)"
| "serve_loop calc (c # cs) =
     (case serve_cycle calc c of
        (acts, calc', None) \<Rightarrow> (acts @ fst (serve_loop calc' cs), snd (serve_loop calc' cs))
      | (acts, calc', Some e) \<Rightarrow>
          if e = SerialException then (acts, Disconnected calc')
          else (acts @ [Sleep (1 / 10)] @ fst (serve_loop calc' cs), snd (serve_loop calc' cs)))"

partial_function (option) wait_for_path :: "(nat \<Rightarrow> bool) \<Rightarrow> nat \<Rightarrow> nat option" where
  \<comment> \<open>\<open>while not os.path.exists(serial_path): time.sleep(1)\<close>; \<open>ex k\<close> is the result of
      the k-th test, the result is the number of sleeps\<close>
  "wait_for_path ex k = (if ex k then Some k else wait_for_path ex (Suc k))"

declare wait_for_path.simps [code]

datatype serve_end = Returned | Raised exn | Serving

definition serve ::
  "(nat \<Rightarrow> bool) \<Rightarrow> exn option \<Rightarrow> cycle list \<Rightarrow> (nat \<Rightarrow> bool) \<Rightarrow> (action list \<times> serve_end) option" where
  \<comment> \<open>\<open>serve\<close>: \<open>boot\<close> are the tests of the device path before opening, \<open>opened\<close> the
      exception of \<open>serial.Serial(...)\<close> if any, \<open>lost\<close> the tests of the path after a
      \<open>SerialException\<close>.  \<open>None\<close>: a wait never ends.  \<open>Serving\<close>: the loop is still
      reading after the given cycles.\<close>
  "serve boot opened cycles lost =
     (case wait_for_path boot 0 of
        None \<Rightarrow> None
      | Some n \<Rightarrow>
          (case opened of
             Some e \<Rightarrow> Some (replicate n (Sleep 1), Raised e)
           | None \<Rightarrow>
               (case serve_loop (CpuPercent_init, NetRates_init) cycles of
                  (acts, Reading calc) \<Rightarrow> Some (replicate n (Sleep 1) @ [Open] @ acts, Serving)
                | (acts, Disconnected calc) \<Rightarrow>
                    (case wait_for_path lost 0 of
                       None \<Rightarrow> None
                     | Some m \<Rightarrow>
                         Some (replicate n (Sleep 1) @ [Open] @ acts
                               @ replicate m (Sleep 1) @ [Sleep 1, Close], Returned)))))"

section \<open>JSON texts\<close>

text \<open>
  A recogniser of JSON texts as RFC 8259 defines them, used to state that a response
  can be parsed.  \<open>json_value n s\<close> reads one value at the start of \<open>s\<close> and returns the
  rest; \<open>n\<close> bounds the nesting and the number of elements, and twice the length of the
  text is always enough.
\<close>

definition json_ws :: "string \<Rightarrow> string" where
  "json_ws s = dropWhile (\<lambda>c. code c \<in> {32, 9, 10, 13}) s"

definition is_hex :: "char \<Rightarrow> bool" where
  "is_hex c = (is_ascii_digit c \<or> (97 \<le> code c \<and> code c \<le> 102) \<or> (65 \<le> code c \<and> code c \<le> 70))"

fun json_chars :: "bool \<Rightarrow> nat \<Rightarrow> string \<Rightarrow> string option" where
  \<comment> \<open>the characters of a string after its opening quote, up to the closing quote;
      \<open>esc\<close>: a backslash was read, \<open>h\<close>: hexadecimal digits still due\<close>
  "json_chars esc h [] = None"
| "json_chars esc h (c # cs) =
     (if 0 < h then (if is_hex c then json_chars False (h - 1) cs else None)
      else if esc then
        (if c \<in> set [CHR 0x22, CHR 0x5C, CHR ''/'', CHR ''b'', CHR ''f'', CHR ''n'', CHR ''r'', CHR ''t'']
         then json_chars False 0 cs
         else if c = CHR ''u'' then json_chars False 4 cs else None)
      else if c = CHR 0x22 then Some cs
      else if c = CHR 0x5C then json_chars True 0 cs
      else if code c < 32 then None
      else json_chars False 0 cs)"

definition json_digits :: "string \<Rightarrow> string option" where
  \<comment> \<open>one or more digits\<close>
  "json_digits s = (if s \<noteq> [] \<and> is_ascii_digit (hd s) then Some (dropWhile is_ascii_digit s) else None)"

definition json_number :: "string \<Rightarrow> string option" where
  \<comment> \<open>\<open>[ minus ] int [ frac ] [ exp ]\<close>\<close>
  "json_number s =
     (let s1 = (if s \<noteq> [] \<and> hd s = CHR ''-'' then tl s else s)
      in case (if s1 \<noteq> [] \<and> hd s1 = CHR ''0'' then Some (tl s1) else json_digits s1) of
           None \<Rightarrow> None
         | Some s2 \<Rightarrow>
             (case (if s2 \<noteq> [] \<and> hd s2 = CHR ''.'' then json_digits (tl s2) else Some s2) of
                None \<Rightarrow> None
              | Some s3 \<Rightarrow>
                  (if s3 \<noteq> [] \<and> (hd s3 = CHR ''e'' \<or> hd s3 = CHR ''E'')
                   then (let s4 = tl s3
                         in json_digits (if s4 \<noteq> [] \<and> (hd s4 = CHR ''+'' \<or> hd s4 = CHR ''-'') then tl s4 else s4))
                   else Some s3)))"

fun json_value :: "nat \<Rightarrow> string \<Rightarrow> string option"
  and json_elements :: "nat \<Rightarrow> string \<Rightarrow> string option"
  and json_members :: "nat \<Rightarrow> string \<Rightarrow> string option" where
  "json_value 0 s = None"
| "json_value (Suc n) s =
     (let t = json_ws s
      in if t = [] then None
         else if hd t = CHR ''{'' then
           (if json_ws (tl t) \<noteq> [] \<and> hd (json_ws (tl t)) = CHR ''}'' then Some (tl (json_ws (tl t)))
            else json_members n (tl t))
         else if hd t = CHR ''['' then
           (if json_ws (tl t) \<noteq> [] \<and> hd (json_ws (tl t)) = CHR '']'' then Some (tl (json_ws (tl t)))
            else json_elements n (tl t))
         else if hd t = CHR 0x22 then json_chars False 0 (tl t)
         else if startswith t ''true'' then Some (drop 4 t)
         else if startswith t ''false'' then Some (drop 5 t)
         else if startswith t ''null'' then Some (drop 4 t)
         else json_number t)"
| "json_elements 0 s = None"
| "json_elements (Suc n) s =
     (case json_value n s of
        None \<Rightarrow> None
      | Some r \<Rightarrow>
          (let t = json_ws r
           in if t = [] then None
              else if hd t = CHR '','' then json_elements n (tl t)
              else if hd t = CHR '']'' then Some (tl t)
              else None))"
| "json_members 0 s = None"
| "json_members (Suc n) s =
     (let t = json_ws s
      in if t = [] \<or> hd t \<noteq> CHR 0x22 then None
         else (case json_chars False 0 (tl t) of
                 None \<Rightarrow> None
               | Some r \<Rightarrow>
                   (let u = json_ws r
                    in if u = [] \<or> hd u \<noteq> CHR '':'' then None
                       else (case json_value n (tl u) of
                               None \<Rightarrow> None
                             | Some r' \<Rightarrow>
                                 (let w = json_ws r'
                                  in if w = [] then None
                                     else if hd w = CHR '','' then json_members n (tl w)
                                     else if hd w = CHR ''}'' then Some (tl w)
                                     else None)))))"

definition is_json_object :: "string \<Rightarrow> bool" where
  \<comment> \<open>the text is one JSON object, with nothing but white space around it\<close>
  "is_json_object s =
     (json_ws s \<noteq> [] \<and> hd (json_ws s) = CHR ''{'' \<and>
      (case json_value (2 * length s) s of None \<Rightarrow> False | Some r \<Rightarrow> json_ws r = []))"

definition snapshot_of ::
  "host \<Rightarrow> decimal option \<Rightarrow> pyfloat \<times> pyfloat \<times> pyfloat \<Rightarrow> rat \<Rightarrow> (string, int \<times> int) dict \<Rightarrow>
   int option \<times> int option \<times> int option \<times> int option \<Rightarrow> json \<Rightarrow> json \<Rightarrow> json \<Rightarrow> json \<Rightarrow> json" where
  \<comment> \<open>the dict that \<open>build_snapshot\<close> returns, from the results of the readers\<close>
  "snapshot_of h cpu_pct la dt rs mem fs pve disks ip =
     JObj [(''schema_version'', JInt SCHEMA),
           (''script_version'', JStr VERSION),
           (''timestamp_ms'', JInt (now_ms (time_now h))),
           (''hostname'', JStr (hostname h)),
           (''uptime_s'', opt_int (uptime_seconds (proc_uptime h))),
           (''cpu'', JObj [
              (''percent'', (case cpu_pct of None \<Rightarrow> JNull | Some v \<Rightarrow> JFloat (Fin v))),
              (''cores'', (case cpu_count h of None \<Rightarrow> JNull
                           | Some n \<Rightarrow> if n = 0 then JNull else JInt (int n))),
              (''load1'', JFloat (fst la)), (''load5'', JFloat (fst (snd la))),
              (''load15'', JFloat (snd (snd la)))]),
           (''ram'', JObj [
              (''total_bytes'', opt_int (fst mem)),
              (''used_bytes'', opt_int (fst (snd mem))),
              (''swap_total_bytes'', opt_int (fst (snd (snd mem)))),
              (''swap_used_bytes'', opt_int (snd (snd (snd mem))))]),
           (''filesystems'', JArr [fs]),
           (''proxmox'', pve),
           (''disks'', disks),
           (''ip'', ip),
           (''net'', net_block dt rs)]"

section \<open>Reading a snapshot\<close>

definition jfield :: "string \<Rightarrow> json \<Rightarrow> json option" where
  \<comment> \<open>the entry of an object under a key\<close>
  "jfield k j = (case j of JObj kvs \<Rightarrow> map_of kvs k | _ \<Rightarrow> None)"

definition int_field :: "string \<Rightarrow> json \<Rightarrow> int" where
  \<comment> \<open>the integer under a key (0 when there is none)\<close>
  "int_field k j = (case jfield k j of Some (JInt n) \<Rightarrow> n | _ \<Rightarrow> 0)"

fun finite_floats :: "json \<Rightarrow> bool" where
  \<comment> \<open>no float of the value is NaN or infinite\<close>
  "finite_floats (JFloat x) = (case x of Fin d \<Rightarrow> True | _ \<Rightarrow> False)"
| "finite_floats (JArr xs) = (\<forall>x \<in> set xs. finite_floats x)"
| "finite_floats (JObj kvs) = (\<forall>kv \<in> set kvs. finite_floats (snd kv))"
| "finite_floats _ = True"

definition returns :: "exn + 'a \<Rightarrow> bool" where
  \<comment> \<open>the call returns a value, it does not raise\<close>
  "returns r = (case r of Inl e \<Rightarrow> False | Inr x \<Rightarrow> True)"

definition dev_line_ok :: "string \<Rightarrow> bool" where
  \<comment> \<open>a line of /proc/net/dev with a colon from which \<open>NetRates._read\<close> gets both
      counters: at least nine fields after the first colon, the first and the ninth
      integer literals\<close>
  "dev_line_ok l =
     (let cols = py_split (snd (split_colon l))
      in 9 \<le> length cols \<and> returns (py_int (cols ! 0)) \<and> returns (py_int (cols ! 8)))"

section \<open>An example host\<close>

definition example_host :: host where
  "example_host =
     \<lparr>proc_stat = Some ''cpu  150 0 60 930 60 0 0 0 0 0\<newline>cpu0 150 0 60 930 60 0 0 0 0 0\<newline>'',
      proc_loadavg = Some ''0.15 0.10 0.05 1/234 5678\<newline>'',
      proc_net_dev = Some ''Inter-|   Receive\<newline> face |bytes\<newline>    lo: 500 5 0 0 0 0 0 0 500 5 0 0 0 0 0 0\<newline>  eth0: 3000 1 0 0 0 0 0 0 2600 1 0 0 0 0 0 0\<newline>'',
      proc_meminfo = Some ''MemTotal:  1000 kB\<newline>MemFree: 200 kB\<newline>'',
      proc_uptime = Some ''12345.67 8888.10\<newline>'',
      time_rates = 2,
      time_now = 3 / 2,
      hostname = ''pve'',
      cpu_count = Some 4,
      statvfs_root = Some (4096, 1000, 400),
      sys_block = Some [''sda'', ''loop0'', ''nvme0n1''],
      which = (\<lambda>tool. False),
      run = (\<lambda>cmd. Exited 127 [])\<rparr>"

definition example_calc :: "CpuPercent \<times> NetRates" where
  \<comment> \<open>the trackers after a first sample\<close>
  "example_calc =
     (\<lparr>prev_total = Some 1000, prev_idle = Some 850, cpu_value = None\<rparr>,
      \<lparr>prev = Some [(''lo'', (100, 100)), (''eth0'', (1000, 2000))], prev_t = Some 0\<rparr>)"

definition example_payload :: json where
  "example_payload =
     JObj [(''schema_version'', JInt 1),
           (''script_version'', JStr ''1.1.26''),
           (''timestamp_ms'', JInt 1500),
           (''hostname'', JStr ''pve''),
           (''uptime_s'', JInt 12345),
           (''cpu'', JObj [(''percent'', JFloat (Fin \<lparr>mant = 300, expo = - 1\<rparr>)),
                           (''cores'', JInt 4),
                           (''load1'', JFloat (Fin \<lparr>mant = 15, expo = - 2\<rparr>)),
                           (''load5'', JFloat (Fin \<lparr>mant = 10, expo = - 2\<rparr>)),
                           (''load15'', JFloat (Fin \<lparr>mant = 5, expo = - 2\<rparr>))]),
           (''ram'', JObj [(''total_bytes'', JInt 1024000), (''used_bytes'', JInt 819200),
                           (''swap_total_bytes'', JNull), (''swap_used_bytes'', JInt 0)]),
           (''filesystems'', JArr [JObj [(''mount'', JStr ''/''), (''total_bytes'', JInt 4096000),
                                         (''used_bytes'', JInt 2457600)]]),
           (''proxmox'', JObj [(''vm_running'', JInt 0), (''vm_total'', JInt 0),
                               (''lxc_running'', JInt 0), (''lxc_total'', JInt 0),
                               (''vms'', JArr []), (''lxcs'', JArr [])]),
           (''disks'', JArr [JObj [(''name'', JStr ''nvme0n1''), (''state'', JStr ''active''),
                                   (''temp_C'', JNull)],
                             JObj [(''name'', JStr ''sda''), (''state'', JNull), (''temp_C'', JNull)]]),
           (''ip'', JObj [(''primary_ifname'', JNull), (''primary_ipv4'', JNull),
                          (''gateway_ipv4'', JNull), (''route_metric'', JNull),
                          (''ip_status'', JStr ''ok''), (''ipv4_addrs'', JArr [])]),
           (''net'', JObj [(''window_s'', JFloat (Fin \<lparr>mant = 2000, expo = - 3\<rparr>)),
                           (''total_rx_Bps'', JInt 1200), (''total_tx_Bps'', JInt 500),
                           (''total_rx_bps'', JInt 9600), (''total_tx_bps'', JInt 4000),
                           (''interfaces'',
                            JArr [JObj [(''if'', JStr ''eth0''), (''rx_Bps'', JInt 1000),
                                        (''tx_Bps'', JInt 300), (''virtual'', JBool False)],
                                  JObj [(''if'', JStr ''lo''), (''rx_Bps'', JInt 200),
                                        (''tx_Bps'', JInt 200), (''virtual'', JBool True)]])])]"

definition example_calc' :: "CpuPercent \<times> NetRates" where
  \<comment> \<open>the trackers after the example snapshot\<close>
  "example_calc' =
     (\<lparr>prev_total = Some 1200, prev_idle = Some 990,
       cpu_value = Some \<lparr>mant = 300, expo = - 1\<rparr>\<rparr>,
      \<lparr>prev = Some [(''lo'', (500, 500)), (''eth0'', (3000, 2600))], prev_t = Some 2\<rparr>)"

section \<open>Properties\<close>






text \<open>
  C4.  When a prior sample exists and the total of the new reading does not exceed
  the prior total, \<open>compute()\<close> returns \<open>None\<close> without raising, and the stored prior
  is the new reading.
\<close>

theorem cpu_no_advance_absent:
  assumes "read_stat s = Inr (t, i)" and "prev_total self = Some pt" and "prev_idle self = Some pidle"
    and "t - pt \<le> 0"
  shows "compute self s = Inr (None, \<lparr>prev_total = Some t, prev_idle = Some i, cpu_value = None\<rparr>)"
  using assms by (cases self) (simp add: compute_def Let_def)

theorem cpu_no_advance_absent_witness:
  "compute \<lparr>prev_total = Some 1000, prev_idle = Some 850, cpu_value = None\<rparr>
     (Some ''cpu  100 0 50 800 50 0 0 0 0 0'')
   = Inr (None, \<lparr>prev_total = Some 1000, prev_idle = Some 850, cpu_value = None\<rparr>)"
proof -
  have r1: "read_stat (Some ''cpu  100 0 50 800 50 0 0 0 0 0'') = Inr (1000, 850)"
    by code_simp
  show ?thesis
    using cpu_no_advance_absent[OF r1, of "\<lparr>prev_total = Some 1000, prev_idle = Some 850, cpu_value = None\<rparr>" 1000 850]
    by simp
qed

lemmas text_eval = text_lines_def split_colon_def strip_def py_isspace_def code_def py_split_def
        index_def bind_exn_def py_int_def is_ascii_digit_def digit_val_def Let_def

text \<open>
  C5.  The first \<open>rates()\<close> call (no prior mapping) returns the window 1.0 and one entry
  \<open>(0, 0)\<close> for every interface of the current reading, whatever its counters, and
  stores the current mapping and the timestamp as the prior.
\<close>

theorem net_zero_baseline:
  assumes "read_dev src = Inr cur" and "prev self = None"
  shows "\<exists>rs. rates self src t = Inr ((1, rs), self\<lparr>prev := Some cur, prev_t := Some t\<rparr>) \<and>
              map fst rs = map fst cur \<and> (\<forall>e \<in> set rs. snd e = (0, 0))"
proof -
  have "map fst (map (\<lambda>(k, v). (k, (0::int, 0::int))) cur) = map fst cur"
    by (induction cur) auto
  then show ?thesis using assms by (auto simp: rates_def)
qed

theorem net_zero_baseline_witness:
  "\<exists>rs. rates NetRates_init
          (Some (''Inter-|'' @ [CHR 0x0A] @ '' face |'' @ [CHR 0x0A]
                 @ ''  eth0: 1000 1 0 0 0 0 0 0 2000 1 0 0 0 0 0 0'' @ [CHR 0x0A]
                 @ ''lo: 77 0 0 0 0 0 0 0 77 0'')) 5
        = Inr ((1, rs), \<lparr>prev = Some [(''eth0'', (1000, 2000)), (''lo'', (77, 77))], prev_t = Some 5\<rparr>) \<and>
        map fst rs = [''eth0'', ''lo''] \<and> (\<forall>e \<in> set rs. snd e = (0, 0))"
proof -
  have r: "read_dev (Some (''Inter-|'' @ [CHR 0x0A] @ '' face |'' @ [CHR 0x0A]
                 @ ''  eth0: 1000 1 0 0 0 0 0 0 2000 1 0 0 0 0 0 0'' @ [CHR 0x0A]
                 @ ''lo: 77 0 0 0 0 0 0 0 77 0''))
           = Inr [(''eth0'', (1000, 2000)), (''lo'', (77, 77))]"
    by (simp add: read_dev_def text_eval)
  have p: "prev NetRates_init = None" by (simp add: NetRates_init_def)
  from net_zero_baseline[OF r p, of 5] show ?thesis by (simp add: NetRates_init_def)
qed




subsection \<open>The example host, evaluated\<close>

lemma ex_stat: "read_stat (proc_stat example_host) = Inr (1200, 990)"
  by (simp add: example_host_def read_stat_def readline_def text_eval)

lemma ex_compute: "compute (fst example_calc) (proc_stat example_host)
   = Inr (Some \<lparr>mant = 300, expo = - 1\<rparr>, fst example_calc')"
  by (simp add: compute_def ex_stat example_calc_def example_calc'_def py_round_def round_half_even_def Let_def)

lemma ex_dev: "read_dev (proc_net_dev example_host) = Inr [(''lo'', (500, 500)), (''eth0'', (3000, 2600))]"
  by (simp add: example_host_def read_dev_def text_eval)

lemma ex_rates: "rates (snd example_calc) (proc_net_dev example_host) (time_rates example_host)
   = Inr ((2, [(''lo'', (200, 200)), (''eth0'', (1000, 300))]), snd example_calc')"
  by (simp add: rates_def ex_dev example_calc_def example_calc'_def dict_get_def trunc_def)
     (simp add: example_host_def)

lemma ex_loadavg: "loadavg (proc_loadavg example_host)
   = (Fin \<lparr>mant = 15, expo = - 2\<rparr>, Fin \<lparr>mant = 10, expo = - 2\<rparr>, Fin \<lparr>mant = 5, expo = - 2\<rparr>)"
  by (simp add: example_host_def loadavg_def py_float_def lower_def lower_char_def digits_nat_def
        float_overflows_def dec_val_def text_eval)

lemma ex_uptime: "uptime_seconds (proc_uptime example_host) = Some 12345"
  by (simp add: example_host_def uptime_seconds_def py_float_def lower_def lower_char_def digits_nat_def
        float_overflows_def dec_val_def int_of_float_def trunc_def floor_unique text_eval)

lemma ex_mem: "mem_info (proc_meminfo example_host) = (Some 1024000, Some 819200, None, Some 0)"
  by (simp add: example_host_def mem_info_def dict_get_def text_eval)

lemma ex_fs: "fs_root (statvfs_root example_host)
   = Inr (JObj [(''mount'', JStr ''/''), (''total_bytes'', JInt 4096000), (''used_bytes'', JInt 2457600)])"
  by (simp add: example_host_def fs_root_def)

lemma ex_pve: "proxmox_info example_host
   = Inr (JObj [(''vm_running'', JInt 0), (''vm_total'', JInt 0),
                               (''lxc_running'', JInt 0), (''lxc_total'', JInt 0),
                               (''vms'', JArr []), (''lxcs'', JArr [])])"
  by (simp add: example_host_def proxmox_info_def)

lemma ex_disks: "read_disks example_host
   = Inr (JArr [JObj [(''name'', JStr ''nvme0n1''), (''state'', JStr ''active''),
                                   (''temp_C'', JNull)],
                             JObj [(''name'', JStr ''sda''), (''state'', JNull), (''temp_C'', JNull)]])"
  by (simp add: example_host_def read_disks_def list_block_devices_def match_pseudo_def match_sd_def
        match_nvme_def startswith_def at_end_def is_lower_letter_def disk_state_def sh_def opt_str_def
        less_eq_char_def less_char_def text_eval)

lemma ex_ip: "primary_ip (run example_host)
   = Inr (JObj [(''primary_ifname'', JNull), (''primary_ipv4'', JNull),
                          (''gateway_ipv4'', JNull), (''route_metric'', JNull),
                          (''ip_status'', JStr ''ok''), (''ipv4_addrs'', JArr [])])"
  by (simp add: example_host_def primary_ip_def sh_def opt_str_def splitlines_def)

lemma ex_net: "net_block 2 [(''lo'', (200, 200)), (''eth0'', (1000, 300))]
   = JObj [(''window_s'', JFloat (Fin \<lparr>mant = 2000, expo = - 3\<rparr>)),
                           (''total_rx_Bps'', JInt 1200), (''total_tx_Bps'', JInt 500),
                           (''total_rx_bps'', JInt 9600), (''total_tx_bps'', JInt 4000),
                           (''interfaces'',
                            JArr [JObj [(''if'', JStr ''eth0''), (''rx_Bps'', JInt 1000),
                                        (''tx_Bps'', JInt 300), (''virtual'', JBool False)],
                                  JObj [(''if'', JStr ''lo''), (''rx_Bps'', JInt 200),
                                        (''tx_Bps'', JInt 200), (''virtual'', JBool True)]])]"
  apply (simp add: net_block_def Let_def)
  apply (simp add: py_round_def round_half_even_def iface_def is_virtual_def startswith_def
        less_eq_char_def less_char_def)
  done

lemma example_snapshot: "build_snapshot example_host example_calc = (Inr example_payload, example_calc')"
  by (simp add: build_snapshot_def ex_compute ex_rates ex_loadavg ex_mem ex_fs ex_pve ex_disks ex_ip ex_net
      ex_uptime example_payload_def SCHEMA_def VERSION_def now_ms_def trunc_def opt_int_def)
     (simp add: example_host_def)

subsection \<open>The net block\<close>

lemma sum_list_insort_key:
  "sum_list (map f (insort_key k x xs)) = f x + sum_list (map (f :: 'a \<Rightarrow> int) xs)"
  by (induction xs) auto

lemma sum_list_sort_key:
  "sum_list (map f (sort_key k xs)) = sum_list (map (f :: 'a \<Rightarrow> int) xs)"
  by (induction xs) (auto simp: sum_list_insort_key)

lemma int_field_iface:
  "int_field ''rx_Bps'' (iface e) = fst (snd e)" "int_field ''tx_Bps'' (iface e) = snd (snd e)"
  by (simp_all add: int_field_def jfield_def iface_def)

lemma net_block_fields:
  "jfield ''interfaces'' (net_block dt rs) = Some (JArr (map iface (sort_key fst rs)))"
  "jfield ''total_rx_Bps'' (net_block dt rs) = Some (JInt (sum_list (map (\<lambda>e. fst (snd e)) rs)))"
  "jfield ''total_tx_Bps'' (net_block dt rs) = Some (JInt (sum_list (map (\<lambda>e. snd (snd e)) rs)))"
  "jfield ''total_rx_bps'' (net_block dt rs) = Some (JInt (sum_list (map (\<lambda>e. fst (snd e)) rs) * 8))"
  "jfield ''total_tx_bps'' (net_block dt rs) = Some (JInt (sum_list (map (\<lambda>e. snd (snd e)) rs) * 8))"
  by (simp_all add: net_block_def jfield_def Let_def)

lemma build_snapshot_Inr:
  assumes "fst (build_snapshot h calc) = Inr snap"
  shows "\<exists>cpu_pct cpu_calc dt rs net_calc fs pve disks ip.
           compute (fst calc) (proc_stat h) = Inr (cpu_pct, cpu_calc) \<and>
           rates (snd calc) (proc_net_dev h) (time_rates h) = Inr ((dt, rs), net_calc) \<and>
           fs_root (statvfs_root h) = Inr fs \<and> proxmox_info h = Inr pve \<and>
           read_disks h = Inr disks \<and> primary_ip (run h) = Inr ip \<and>
           snap = snapshot_of h cpu_pct (loadavg (proc_loadavg h)) dt rs (mem_info (proc_meminfo h))
                    fs pve disks ip"
  using assms unfolding build_snapshot_def snapshot_of_def
  by (simp add: Let_def split: sum.splits prod.splits)

lemma build_snapshot_net:
  assumes "fst (build_snapshot h calc) = Inr snap"
  shows "\<exists>dt rs. jfield ''net'' snap = Some (net_block dt rs)"
proof -
  from build_snapshot_Inr[OF assms] obtain cpu_pct dt rs fs pve disks ip where
    "snap = snapshot_of h cpu_pct (loadavg (proc_loadavg h)) dt rs (mem_info (proc_meminfo h))
                    fs pve disks ip" by blast
  then have "jfield ''net'' snap = Some (net_block dt rs)"
    by (simp add: snapshot_of_def jfield_def)
  then show ?thesis by blast
qed

text \<open>
  C10.  In every snapshot that \<open>build_snapshot\<close> returns, the entries of the net
  block agree: \<open>total_rx_Bps\<close> and \<open>total_tx_Bps\<close> are the sums of \<open>rx_Bps\<close> and
  \<open>tx_Bps\<close> over the list \<open>interfaces\<close>, and \<open>total_rx_bps\<close>, \<open>total_tx_bps\<close> are
  eight times these sums.
\<close>

theorem net_block_consistent:
  assumes "fst (build_snapshot h calc) = Inr snap"
  shows "\<exists>net ifs. jfield ''net'' snap = Some net \<and> jfield ''interfaces'' net = Some (JArr ifs) \<and>
     jfield ''total_rx_Bps'' net = Some (JInt (sum_list (map (int_field ''rx_Bps'') ifs))) \<and>
     jfield ''total_tx_Bps'' net = Some (JInt (sum_list (map (int_field ''tx_Bps'') ifs))) \<and>
     jfield ''total_rx_bps'' net = Some (JInt (8 * sum_list (map (int_field ''rx_Bps'') ifs))) \<and>
     jfield ''total_tx_bps'' net = Some (JInt (8 * sum_list (map (int_field ''tx_Bps'') ifs)))"
proof -
  from build_snapshot_net[OF assms] obtain dt rs where n: "jfield ''net'' snap = Some (net_block dt rs)"
    by blast
  let ?ifs = "map iface (sort_key fst rs)"
  have rx: "sum_list (map (int_field ''rx_Bps'') ?ifs) = sum_list (map (\<lambda>e. fst (snd e)) rs)"
    by (simp add: comp_def int_field_iface sum_list_sort_key)
  have tx: "sum_list (map (int_field ''tx_Bps'') ?ifs) = sum_list (map (\<lambda>e. snd (snd e)) rs)"
    by (simp add: comp_def int_field_iface sum_list_sort_key)
  show ?thesis
    apply (rule exI[of _ "net_block dt rs"], rule exI[of _ ?ifs])
    by (simp only: n net_block_fields rx tx mult.commute simp_thms)
qed

theorem net_block_consistent_witness:
  "\<exists>net ifs. jfield ''net'' example_payload = Some net \<and> jfield ''interfaces'' net = Some (JArr ifs) \<and>
     jfield ''total_rx_Bps'' net = Some (JInt (sum_list (map (int_field ''rx_Bps'') ifs))) \<and>
     jfield ''total_tx_Bps'' net = Some (JInt (sum_list (map (int_field ''tx_Bps'') ifs))) \<and>
     jfield ''total_rx_bps'' net = Some (JInt (8 * sum_list (map (int_field ''rx_Bps'') ifs))) \<and>
     jfield ''total_tx_bps'' net = Some (JInt (8 * sum_list (map (int_field ''tx_Bps'') ifs)))"
proof -
  have "fst (build_snapshot example_host example_calc) = Inr example_payload"
    by (simp add: example_snapshot)
  from net_block_consistent[OF this] show ?thesis .
qed

subsection \<open>The protocol loop\<close>






lemma wait_for_path_reaches:
  "ex (k + m) \<Longrightarrow> (\<forall>j<m. \<not> ex (k + j)) \<Longrightarrow> wait_for_path ex k = Some (k + m)"
proof (induction m arbitrary: k)
  case 0
  then show ?case by (simp add: wait_for_path.simps)
next
  case (Suc m)
  have n: "\<not> ex k" using Suc.prems(2)[rule_format, of 0] by simp
  have a: "ex (Suc k + m)" using Suc.prems(1) by simp
  have b: "\<forall>j<m. \<not> ex (Suc k + j)"
  proof (intro allI impI)
    fix j assume "j < m"
    then have "\<not> ex (k + Suc j)" using Suc.prems(2)[rule_format, of "Suc j"] by simp
    then show "\<not> ex (Suc k + j)" by simp
  qed
  have "wait_for_path ex k = wait_for_path ex (Suc k)"
    using n by (subst wait_for_path.simps) simp
  also have "\<dots> = Some (Suc k + m)" by (rule Suc.IH[OF a b])
  finally show ?case by simp
qed

lemma wait_for_path_Some:
  assumes "wait_for_path ex k = Some r"
  shows "ex r \<and> k \<le> r"
proof -
  have "wait_for_path ex k = Some r \<Longrightarrow> ex r \<and> k \<le> r"
  proof (rule wait_for_path.raw_induct[where P = "\<lambda>e k r. e r \<and> k \<le> r" and ex = ex and k = k and y = r])
    fix f :: "(nat \<Rightarrow> bool) \<Rightarrow> nat \<Rightarrow> nat option" and e k r
    assume ih: "\<And>e k r. f e k = Some r \<Longrightarrow> e r \<and> k \<le> r"
      and eq: "(if e k then Some k else f e (Suc k)) = Some r"
    show "e r \<and> k \<le> r"
    proof (cases "e k")
      case True
      with eq show ?thesis by simp
    next
      case False
      with eq have "f e (Suc k) = Some r" by simp
      from ih[OF this] show ?thesis by simp
    qed
  qed
  from this[OF assms] show ?thesis .
qed

lemma wait_for_path_never: "(\<forall>j. \<not> ex j) \<Longrightarrow> wait_for_path ex k = None"
proof (rule ccontr)
  assume a: "\<forall>j. \<not> ex j" and "wait_for_path ex k \<noteq> None"
  then obtain r where "wait_for_path ex k = Some r" by auto
  from wait_for_path_Some[OF this] a show False by simp
qed

lemma serve_loop_fault:
  assumes "serve_loop calc pre = (acts, Reading calc1)"
    and "serve_cycle calc1 c = (a, calc2, Some SerialException)"
  shows "serve_loop calc (pre @ c # post) = (acts @ a, Disconnected calc2)"
  using assms
proof (induction pre arbitrary: calc acts)
  case Nil
  then show ?case by simp
next
  case (Cons x pre)
  obtain ax cx ex where x: "serve_cycle calc x = (ax, cx, ex)" by (cases "serve_cycle calc x") auto
  obtain as e where r: "serve_loop cx pre = (as, e)" by (cases "serve_loop cx pre") auto
  show ?case
  proof (cases ex)
    case None
    with Cons.prems(1) x r have "e = Reading calc1" "acts = ax @ as" by auto
    with Cons.IH[of cx as] r Cons.prems(2) have "serve_loop cx (pre @ c # post) = (as @ a, Disconnected calc2)"
      by simp
    with x None \<open>acts = ax @ as\<close> show ?thesis by simp
  next
    case (Some err)
    with Cons.prems(1) x r have ne: "err \<noteq> SerialException" by (auto split: if_splits)
    with Some Cons.prems(1) x r have "e = Reading calc1" "acts = ax @ [Sleep (1 / 10)] @ as" by auto
    with Cons.IH[of cx as] r Cons.prems(2) have "serve_loop cx (pre @ c # post) = (as @ a, Disconnected calc2)"
      by simp
    with x Some ne \<open>acts = ax @ [Sleep (1 / 10)] @ as\<close> show ?thesis by simp
  qed
qed

text \<open>
  C9.  When a cycle ends in a \<open>SerialException\<close> (raised by the read or by the
  write), \<open>serve\<close> polls the device path once a second without any bound: it never
  returns while the path stays away, and once the path is there it sleeps a second
  and returns.  Nothing is opened after the first \<open>Open\<close>, and the cycles after
  the fault are not handled.
\<close>

theorem serial_fault_ends_session:
  assumes "wait_for_path boot 0 = Some n"
    and "serve_loop (CpuPercent_init, NetRates_init) pre = (acts, Reading calc1)"
    and "serve_cycle calc1 c = (a, calc2, Some SerialException)"
  shows "((\<forall>k. \<not> lost k) \<longrightarrow> serve boot None (pre @ c # post) lost = None) \<and>
         (\<forall>m. lost m \<and> (\<forall>k<m. \<not> lost k) \<longrightarrow>
            serve boot None (pre @ c # post) lost =
              Some (replicate n (Sleep 1) @ [Open] @ acts @ a @ replicate m (Sleep 1) @ [Sleep 1, Close],
                    Returned))"
proof -
  have l: "serve_loop (CpuPercent_init, NetRates_init) (pre @ c # post) = (acts @ a, Disconnected calc2)"
    by (rule serve_loop_fault[OF assms(2,3)])
  have s: "serve boot None (pre @ c # post) lost =
        (case wait_for_path lost 0 of
           None \<Rightarrow> None
         | Some m \<Rightarrow> Some (replicate n (Sleep 1) @ [Open] @ (acts @ a)
                               @ replicate m (Sleep 1) @ [Sleep 1, Close], Returned))"
    by (simp add: serve_def assms(1) l)
  have never: "(\<forall>k. \<not> lost k) \<longrightarrow> serve boot None (pre @ c # post) lost = None"
    by (simp add: s wait_for_path_never)
  have reach: "\<And>m. lost m \<and> (\<forall>k<m. \<not> lost k) \<Longrightarrow> wait_for_path lost 0 = Some m"
    using wait_for_path_reaches[of lost 0] by simp
  show ?thesis using never reach by (simp add: s)
qed

theorem serial_fault_ends_session_witness:
  "serve (\<lambda>k. True) None
     [\<lparr>rx = Inr ''status\<newline>'', seen = example_host, tx = None\<rparr>,
      \<lparr>rx = Inl SerialException, seen = example_host, tx = None\<rparr>,
      \<lparr>rx = Inr ''GET\<newline>'', seen = example_host, tx = None\<rparr>] (\<lambda>k. 2 \<le> k)
   = Some ([Open, Sleep 1, Sleep 1, Sleep 1, Close], Returned) \<and>
   serve (\<lambda>k. True) None
     [\<lparr>rx = Inr ''status\<newline>'', seen = example_host, tx = None\<rparr>,
      \<lparr>rx = Inl SerialException, seen = example_host, tx = None\<rparr>,
      \<lparr>rx = Inr ''GET\<newline>'', seen = example_host, tx = None\<rparr>] (\<lambda>k. False)
   = None"
proof -
  let ?c1 = "\<lparr>rx = Inr ''status\<newline>'', seen = example_host, tx = None\<rparr>"
  let ?c2 = "\<lparr>rx = Inl SerialException, seen = example_host, tx = None\<rparr>"
  let ?c3 = "\<lparr>rx = Inr ''GET\<newline>'', seen = example_host, tx = None\<rparr>"
  let ?init = "(CpuPercent_init, NetRates_init)"
  have b: "wait_for_path (\<lambda>k. True) 0 = Some 0" by (simp add: wait_for_path.simps)
  have u: "upper (strip (strip ''status\<newline>'')) \<noteq> GET"
    by (simp add: upper_def upper_char_def GET_def strip_def py_isspace_def code_def)
  have s: "strip ''status\<newline>'' \<noteq> []"
    by (simp add: strip_def py_isspace_def code_def)
  have c1: "serve_cycle ?init ?c1 = ([], ?init, None)"
    using u s by (simp add: serve_cycle_def Let_def)
  have p: "serve_loop ?init [?c1] = ([], Reading ?init)"
    by (simp add: c1)
  have c2: "serve_cycle ?init ?c2 = ([], ?init, Some SerialException)"
    by (simp add: serve_cycle_def)
  have l: "(2::nat) \<le> 2 \<and> (\<forall>k<2. \<not> (2::nat) \<le> k)" by simp
  from serial_fault_ends_session[OF b p c2, of "\<lambda>k. False" "[?c3]"]
  have n: "serve (\<lambda>k. True) None ([?c1] @ ?c2 # [?c3]) (\<lambda>k. False) = None" by simp
  from serial_fault_ends_session[OF b p c2, of "\<lambda>k. 2 \<le> k" "[?c3]"] l
  have r: "serve (\<lambda>k. True) None ([?c1] @ ?c2 # [?c3]) (\<lambda>k. 2 \<le> k)
           = Some (replicate 0 (Sleep 1) @ [Open] @ [] @ [] @ replicate 2 (Sleep 1) @ [Sleep 1, Close], Returned)"
    by blast
  have e: "replicate 0 (Sleep 1) @ [Open] @ [] @ [] @ replicate 2 (Sleep 1) @ [Sleep 1, Close]
           = [Open, Sleep 1, Sleep 1, Sleep 1, Close]"
    by (simp add: numeral_2_eq_2)
  from n r show ?thesis by (simp add: numeral_2_eq_2)
qed

subsection \<open>Reading the network counters\<close>

lemma dev_line_ok_iff:
  "dev_line_ok l \<longleftrightarrow>
     returns (bind_exn (index (py_split (snd (split_colon l))) 0) py_int) \<and>
     returns (bind_exn (index (py_split (snd (split_colon l))) 8) py_int)"
  by (auto simp: dev_line_ok_def returns_def bind_exn_def index_def Let_def split: sum.splits)

lemma dict_set_keys: "fst ` set (dict_set d k v) = insert k (fst ` set d)"
  by (induction d k v rule: dict_set.induct) auto

lemma read_dev_lines_returns:
  "returns (read_dev_lines data lns) \<longleftrightarrow> (\<forall>l \<in> set lns. CHR '':'' \<in> set l \<longrightarrow> dev_line_ok l)"
proof (induction lns arbitrary: data)
  case Nil
  show ?case by (simp add: returns_def)
next
  case (Cons l lns)
  show ?case
  proof (cases "CHR '':'' \<in> set l")
    case False
    then show ?thesis using Cons.IH[of data] by simp
  next
    case True
    show ?thesis
    proof (cases "dev_line_ok l")
      case False
      then have "\<not> returns (read_dev_lines data (l # lns))"
        using True unfolding dev_line_ok_iff
        by (auto simp: returns_def Let_def split: sum.splits)
      with True False show ?thesis by auto
    next
      case ok: True
      then obtain rx tx where
        r: "bind_exn (index (py_split (snd (split_colon l))) 0) py_int = Inr rx"
        and t: "bind_exn (index (py_split (snd (split_colon l))) 8) py_int = Inr tx"
        unfolding dev_line_ok_iff by (auto simp: returns_def split: sum.splits)
      have "read_dev_lines data (l # lns)
            = read_dev_lines (dict_set data (strip (fst (split_colon l))) (rx, tx)) lns"
        using True r t by (simp add: Let_def)
      with Cons.IH[of "dict_set data (strip (fst (split_colon l))) (rx, tx)"] True ok
      show ?thesis by simp
    qed
  qed
qed

lemma read_dev_lines_keys:
  "read_dev_lines data lns = Inr d \<Longrightarrow>
     set (map fst d) = set (map fst data) \<union>
       (\<lambda>l. strip (fst (split_colon l))) ` {l \<in> set lns. CHR '':'' \<in> set l}"
proof (induction lns arbitrary: data)
  case Nil
  then show ?case by simp
next
  case (Cons l lns)
  show ?case
  proof (cases "CHR '':'' \<in> set l")
    case False
    with Cons.prems have "read_dev_lines data lns = Inr d" by simp
    from Cons.IH[OF this] False show ?thesis by auto
  next
    case True
    with Cons.prems obtain rx tx where
      "read_dev_lines (dict_set data (strip (fst (split_colon l))) (rx, tx)) lns = Inr d"
      by (auto simp: Let_def split: sum.splits)
    from Cons.IH[OF this]
    have "fst ` set d = insert (strip (fst (split_colon l))) (fst ` set data) \<union>
       (\<lambda>l. strip (fst (split_colon l))) ` {l \<in> set lns. CHR '':'' \<in> set l}"
      by (simp add: dict_set_keys)
    moreover have "{x \<in> set (l # lns). CHR '':'' \<in> set x} = insert l {x \<in> set lns. CHR '':'' \<in> set x}"
      using True by auto
    ultimately show ?thesis by (simp only: set_map image_insert) blast
  qed
qed

text \<open>
  C7 as stated does not hold: a line with a colon but fewer than nine fields after it
  is not skipped, the read raises \<open>IndexError\<close>.
\<close>

theorem read_dev_raises_counterexample:
  "read_dev (Some ''Inter-|   Receive\<newline> face |bytes\<newline>  eth0: 1000 5\<newline>'') = Inl IndexError"
  by (simp add: read_dev_def text_eval)

text \<open>
  C7, amended.  The counter read skips the first two lines and every later line
  without a colon.  It returns exactly when every later line with a colon has, after
  its first colon, at least nine whitespace-separated fields of which the first and
  the ninth are integer literals; otherwise it raises.  When it returns, its keys are
  the trimmed texts before the first colon of these lines.
\<close>

theorem read_dev_well_formed:
  "(returns (read_dev (Some txt)) \<longleftrightarrow>
      (\<forall>l \<in> set (drop 2 (text_lines txt)). CHR '':'' \<in> set l \<longrightarrow> dev_line_ok l)) \<and>
   (\<forall>d. read_dev (Some txt) = Inr d \<longrightarrow>
      set (map fst d) =
        (\<lambda>l. strip (fst (split_colon l))) ` {l \<in> set (drop 2 (text_lines txt)). CHR '':'' \<in> set l})"
proof -
  have a: "returns (read_dev (Some txt)) \<longleftrightarrow>
      (\<forall>l \<in> set (drop 2 (text_lines txt)). CHR '':'' \<in> set l \<longrightarrow> dev_line_ok l)"
    by (simp add: read_dev_def read_dev_lines_returns)
  have b: "\<And>d. read_dev (Some txt) = Inr d \<Longrightarrow>
      set (map fst d) =
        (\<lambda>l. strip (fst (split_colon l))) ` {l \<in> set (drop 2 (text_lines txt)). CHR '':'' \<in> set l}"
    using read_dev_lines_keys[of "[]" "drop 2 (text_lines txt)"] by (simp add: read_dev_def)
  from a b show ?thesis by blast
qed

theorem read_dev_well_formed_witness:
  "returns (read_dev (Some ''Inter-|   Receive\<newline> face |bytes\<newline>no counters here\<newline>\<newline>  eth0: 3000 1 0 0 0 0 0 0 2600 1 0 0 0 0 0 0\<newline>'')) \<and>
   \<not> returns (read_dev (Some ''Inter-|   Receive\<newline> face |bytes\<newline>  eth0: 3000 1 0 0 0 0 0 0 x 1 0 0 0 0 0 0\<newline>''))"
proof -
  let ?good = "''Inter-|   Receive\<newline> face |bytes\<newline>no counters here\<newline>\<newline>  eth0: 3000 1 0 0 0 0 0 0 2600 1 0 0 0 0 0 0\<newline>''"
  let ?bad = "''Inter-|   Receive\<newline> face |bytes\<newline>  eth0: 3000 1 0 0 0 0 0 0 x 1 0 0 0 0 0 0\<newline>''"
  have g: "\<forall>l \<in> set (drop 2 (text_lines ?good)). CHR '':'' \<in> set l \<longrightarrow> dev_line_ok l"
    by (simp add: dev_line_ok_def returns_def text_eval)
  have b: "\<not> (\<forall>l \<in> set (drop 2 (text_lines ?bad)). CHR '':'' \<in> set l \<longrightarrow> dev_line_ok l)"
    by (simp add: dev_line_ok_def returns_def text_eval)
  from read_dev_well_formed[of ?good] g have 1: "returns (read_dev (Some ?good))" by blast
  from read_dev_well_formed[of ?bad] b have 2: "\<not> returns (read_dev (Some ?bad))" by blast
  from 1 2 show ?thesis by (rule conjI)
qed

subsection \<open>Faults during snapshot assembly\<close>

lemma returns_Inr [simp]: "returns (Inr x)" and returns_Inl [simp]: "\<not> returns (Inl e)"
  by (simp_all add: returns_def)













end
